theory Spec2Isabelle
  imports Complex_Main
begin

section \<open>The Mario-style platformer of \<open>code.py\<close>\<close>

text \<open>
  A shallow embedding of the game logic of \<open>src/code.py\<close>: the camera, the enemy and
  player physics, the input controller and the per-frame session update.

  Numbers. Python mixes \<open>int\<close> and \<open>float\<close> freely in positions and velocities
  (\<open>GROUND_Y = 105\<close>, \<open>GRAVITY = 0.6\<close>); they are modelled as \<^typ>\<open>real\<close>, that is,
  float rounding, infinities and NaN are not modelled. Counters that the code only ever
  sets to integer literals and changes by \<open>1\<close> (invincibility frames, animation
  counters, score, lives, the victory timer) are \<^typ>\<open>int\<close>.

  Effects. Every method that mutates \<open>self\<close> becomes a function from the old object to
  the new one. Sound, NeoPixel, HUD and overlay calls do not feed back into the game
  state and are left out; sensor and button reads are arguments.
\<close>

subsection \<open>Constants\<close>

definition DISPLAY_WIDTH :: int where "DISPLAY_WIDTH = 240"
definition DISPLAY_HEIGHT :: real where "DISPLAY_HEIGHT = 135"
definition GRAVITY :: real where "GRAVITY = 6 / 10"
definition JUMP_STRENGTH :: real where "JUMP_STRENGTH = - 10"
definition MOVE_SPEED :: real where "MOVE_SPEED = 25 / 10"
definition RUN_SPEED :: real where "RUN_SPEED = 45 / 10"
definition GROUND_Y :: real where "GROUND_Y = 105"
definition TILT_DEADZONE :: real where "TILT_DEADZONE = 8 / 10"
definition TILT_MAX :: real where "TILT_MAX = 6"
definition MARIO_WIDTH :: real where "MARIO_WIDTH = 16"
definition MARIO_HEIGHT :: real where "MARIO_HEIGHT = 16"
definition ENEMY_WIDTH :: real where "ENEMY_WIDTH = 16"
definition ENEMY_HEIGHT :: real where "ENEMY_HEIGHT = 16"
definition BLOCK_SIZE :: int where "BLOCK_SIZE = 16"

subsection \<open>Camera\<close>

record camera =
  cam_x :: real
  target_x :: real
  smoothing :: real

text \<open>\<open>Camera.__init__\<close>\<close>

definition Camera :: camera where
  "Camera = \<lparr>cam_x = 0, target_x = 0, smoothing = 2 / 10\<rparr>"

text \<open>
  \<open>Camera.update(mario_x)\<close>: \<open>DISPLAY_WIDTH // 3\<close> is integer floor division,
  \<open>2200 - DISPLAY_WIDTH\<close> the largest scroll offset.
\<close>

definition Camera_update :: "camera \<Rightarrow> real \<Rightarrow> camera" where
  "Camera_update c mario_x =
     (let t0 = mario_x - real_of_int (DISPLAY_WIDTH div 3);
          t1 = max 0 (min t0 (real_of_int (2200 - DISPLAY_WIDTH)));
          c1 = c\<lparr>target_x := t1\<rparr>
      in c1\<lparr>cam_x := cam_x c1 + (target_x c1 - cam_x c1) * smoothing c1\<rparr>)"

text \<open>A sequence of \<open>Camera.update\<close> calls, one player x per call.\<close>

definition camera_run :: "camera \<Rightarrow> real list \<Rightarrow> camera" where
  "camera_run c xs = foldl Camera_update c xs"

subsection \<open>Level entities\<close>

text \<open>
  \<open>block_type\<close> is one of the strings \<open>"brick"\<close>, \<open>"question"\<close>, \<open>"pipe"\<close>; it only selects a
  tile in \<open>draw\<close>.
\<close>

datatype block_type = Brick | Question | Pipe

record platform =
  p_x :: real
  p_y :: real
  p_width :: real
  p_height :: real
  p_block_type :: block_type

text \<open>\<open>Platform(x, y, width, height, block_type="brick")\<close>\<close>

definition Platform :: "real \<Rightarrow> real \<Rightarrow> real \<Rightarrow> real \<Rightarrow> block_type \<Rightarrow> platform" where
  "Platform x y w h t = \<lparr>p_x = x, p_y = y, p_width = w, p_height = h, p_block_type = t\<rparr>"

record coin =
  c_x :: real
  c_y :: real
  collected :: bool

definition Coin :: "real \<Rightarrow> real \<Rightarrow> coin" where
  "Coin x y = \<lparr>c_x = x, c_y = y, collected = False\<rparr>"

record enemy =
  e_x :: real
  e_y :: real
  e_width :: real
  e_height :: real
  e_vel_x :: real
  e_vel_y :: real
  alive :: bool
  e_on_ground :: bool
  e_sprite_frame :: int
  frame_counter :: int

text \<open>\<open>Enemy.__init__(x, y)\<close>\<close>

definition Enemy :: "real \<Rightarrow> real \<Rightarrow> enemy" where
  "Enemy x y = \<lparr>e_x = x, e_y = y, e_width = ENEMY_WIDTH, e_height = ENEMY_HEIGHT,
     e_vel_x = - 1, e_vel_y = 0, alive = True, e_on_ground = False,
     e_sprite_frame = 0, frame_counter = 0\<rparr>"

text \<open>\<open>check_collision\<close>: the axis-aligned bounding-box overlap test.\<close>

definition check_collision ::
  "real \<Rightarrow> real \<Rightarrow> real \<Rightarrow> real \<Rightarrow> real \<Rightarrow> real \<Rightarrow> real \<Rightarrow> real \<Rightarrow> bool" where
  "check_collision x1 y1 w1 h1 x2 y2 w2 h2 =
     (x1 < x2 + w2 \<and> x1 + w1 > x2 \<and> y1 < y2 + h2 \<and> y1 + h1 > y2)"

subsection \<open>Enemy.update\<close>

text \<open>Lines 315-317 and 323: integrate, then clear \<open>on_ground\<close>.\<close>

definition enemy_move :: "enemy \<Rightarrow> enemy" where
  "enemy_move e =
     (let e1 = e\<lparr>e_x := e_x e + e_vel_x e\<rparr>;
          e2 = e1\<lparr>e_vel_y := e_vel_y e1 + GRAVITY\<rparr>;
          e3 = e2\<lparr>e_y := e_y e2 + e_vel_y e2\<rparr>
      in e3\<lparr>e_on_ground := False\<rparr>)"

text \<open>The proximity skip of both loops: \<open>abs(platform.x - self.x) > nearby_range\<close>.\<close>

definition enemy_far :: "enemy \<Rightarrow> platform \<Rightarrow> bool" where
  "enemy_far e p = (\<bar>p_x p - e_x e\<bar> > 100)"

definition enemy_lands :: "enemy \<Rightarrow> platform \<Rightarrow> bool" where
  "enemy_lands e p =
     (e_x e + e_width e > p_x p \<and> e_x e < p_x p + p_width p \<and> e_vel_y e \<ge> 0 \<and>
      e_y e + e_height e \<ge> p_y p \<and> e_y e + e_height e \<le> p_y p + p_height p + 5)"

text \<open>First loop (lines 324-337): land on the first nearby platform that matches.\<close>

fun enemy_land_loop :: "enemy \<Rightarrow> platform list \<Rightarrow> enemy" where
  "enemy_land_loop e [] = e"
| "enemy_land_loop e (p # ps) =
     (if enemy_far e p then enemy_land_loop e ps
      else if enemy_lands e p
        then e\<lparr>e_y := p_y p - e_height e, e_vel_y := 0, e_on_ground := True\<rparr>
      else enemy_land_loop e ps)"

definition enemy_wall_hit :: "enemy \<Rightarrow> platform \<Rightarrow> bool" where
  "enemy_wall_hit e p =
     (e_x e + e_width e > p_x p \<and> e_x e < p_x p + p_width p \<and>
      e_y e + e_height e > p_y p + p_height p)"

definition enemy_bounce :: "enemy \<Rightarrow> platform \<Rightarrow> enemy" where
  "enemy_bounce e p =
     (let e1 = (if e_vel_x e > 0 then e\<lparr>e_x := p_x p - e_width e\<rparr>
                else e\<lparr>e_x := p_x p + p_width p\<rparr>)
      in e1\<lparr>e_vel_x := e_vel_x e1 * (- 1)\<rparr>)"

text \<open>Second loop (lines 340-352): bounce off the first nearby platform that matches.\<close>

fun enemy_wall_loop :: "enemy \<Rightarrow> platform list \<Rightarrow> enemy" where
  "enemy_wall_loop e [] = e"
| "enemy_wall_loop e (p # ps) =
     (if enemy_far e p then enemy_wall_loop e ps
      else if enemy_wall_hit e p then enemy_bounce e p
      else enemy_wall_loop e ps)"

text \<open>Lines 354-357: the walk animation.\<close>

definition enemy_animate :: "enemy \<Rightarrow> enemy" where
  "enemy_animate e =
     (let e1 = e\<lparr>frame_counter := frame_counter e + 1\<rparr>
      in if frame_counter e1 \<ge> 15
         then e1\<lparr>e_sprite_frame := 1 - e_sprite_frame e1, frame_counter := 0\<rparr>
         else e1)"

text \<open>
  \<open>Enemy.update(platforms)\<close>: the updated enemy and the returned flag. A dead enemy
  returns \<open>False\<close> at once, unchanged.
\<close>

definition Enemy_update :: "enemy \<Rightarrow> platform list \<Rightarrow> enemy \<times> bool" where
  "Enemy_update e platforms =
     (if \<not> alive e then (e, False)
      else let e1 = enemy_move e;
               e2 = enemy_land_loop e1 platforms;
               e3 = enemy_wall_loop e2 platforms;
               e4 = enemy_animate e3
           in (e4, e_y e4 > DISPLAY_HEIGHT + 50))"

text \<open>\<open>Enemy.stomp\<close>\<close>

definition stomp :: "enemy \<Rightarrow> enemy" where
  "stomp e = e\<lparr>alive := False\<rparr>"

subsection \<open>Mario\<close>

record mario =
  m_x :: real
  m_y :: real
  m_vel_x :: real
  m_vel_y :: real
  on_ground :: bool
  facing_right :: bool
  m_width :: real
  m_height :: real
  is_running :: bool
  invincible :: int
  sprite_frame :: int
  anim_counter :: int
  jump_triggered :: bool

text \<open>\<open>Mario.__init__(x, y)\<close>\<close>

definition Mario :: "real \<Rightarrow> real \<Rightarrow> mario" where
  "Mario x y = \<lparr>m_x = x, m_y = y, m_vel_x = 0, m_vel_y = 0, on_ground = False,
     facing_right = True, m_width = MARIO_WIDTH, m_height = MARIO_HEIGHT,
     is_running = False, invincible = 0, sprite_frame = 0, anim_counter = 0,
     jump_triggered = False\<rparr>"

subsection \<open>IMUController\<close>

text \<open>
  The controller's fields. \<open>offset_x\<close> is the calibration offset, \<open>touch_available\<close> whether
  the capacitive pad was found. The button is active low: \<open>btn_jump.value\<close> is \<open>False\<close>
  while it is pressed.
\<close>

record imu =
  offset_x :: real
  prev_jump :: bool
  jump_buffer :: bool
  jump_buffer_frames :: int
  touch_available :: bool
  i_left :: bool
  i_right :: bool
  jump :: bool
  run :: bool
  tilt_value :: real

text \<open>
  The controller as \<open>__init__\<close> leaves it, given the offset that \<open>calibrate\<close> computed and
  whether the touch pad was found.
\<close>

definition IMUController :: "real \<Rightarrow> bool \<Rightarrow> imu" where
  "IMUController off touch = \<lparr>offset_x = off, prev_jump = True, jump_buffer = False,
     jump_buffer_frames = 0, touch_available = touch, i_left = False, i_right = False,
     jump = False, run = False, tilt_value = 0\<rparr>"

text \<open>\<open>poll_button_only\<close>, on the level \<open>btn_value\<close> read from the pin.\<close>

definition poll_button_only :: "imu \<Rightarrow> bool \<Rightarrow> imu" where
  "poll_button_only s btn_value =
     (let current_jump = \<not> btn_value;
          s1 = (if current_jump \<and> \<not> prev_jump s
                then s\<lparr>jump_buffer := True, jump_buffer_frames := 3\<rparr> else s)
      in s1\<lparr>prev_jump := current_jump\<rparr>)"

text \<open>\<open>update\<close>, lines 603-623: calibration, deadzone and normalisation of the tilt.\<close>

definition imu_tilt :: "imu \<Rightarrow> real \<Rightarrow> imu" where
  "imu_tilt s accel_x =
     (let adjusted_x = accel_x - offset_x s
      in if \<bar>adjusted_x\<bar> < TILT_DEADZONE
         then s\<lparr>tilt_value := 0, i_left := False, i_right := False\<rparr>
         else if adjusted_x > 0
         then s\<lparr>tilt_value := min 1 ((adjusted_x - TILT_DEADZONE) / TILT_MAX),
                i_right := True, i_left := False\<rparr>
         else s\<lparr>tilt_value := max (- 1) ((adjusted_x + TILT_DEADZONE) / TILT_MAX),
                i_left := True, i_right := False\<rparr>)"

text \<open>\<open>update\<close>, lines 625-644: the buffered jump button.\<close>

definition imu_button :: "imu \<Rightarrow> bool \<Rightarrow> imu" where
  "imu_button s btn_value =
     (let current_jump = \<not> btn_value;
          s1 = (if current_jump \<and> \<not> prev_jump s
                then s\<lparr>jump_buffer := True, jump_buffer_frames := 3\<rparr> else s);
          s2 = s1\<lparr>prev_jump := current_jump\<rparr>
      in if jump_buffer s2
         then (let s3 = s2\<lparr>jump := True, jump_buffer_frames := jump_buffer_frames s2 - 1\<rparr>
               in if jump_buffer_frames s3 \<le> 0
                  then s3\<lparr>jump_buffer := False, jump := False\<rparr> else s3)
         else s2\<lparr>jump := False\<rparr>)"

text \<open>\<open>update\<close>, lines 646-650: the run pad.\<close>

definition imu_touch :: "imu \<Rightarrow> bool \<Rightarrow> imu" where
  "imu_touch s touch_value = s\<lparr>run := (if touch_available s then touch_value else False)\<rparr>"

text \<open>
  \<open>IMUController.update\<close>, on the three hardware reads it makes: the x acceleration, the
  button level and the touch level.
\<close>

definition IMUController_update :: "imu \<Rightarrow> real \<Rightarrow> bool \<Rightarrow> bool \<Rightarrow> imu" where
  "IMUController_update s accel_x btn_value touch_value =
     imu_touch (imu_button (imu_tilt s accel_x) btn_value) touch_value"

text \<open>
  A sequence of calls on the controller: \<open>Poll v\<close> is \<open>poll_button_only\<close> reading the level
  \<open>v\<close>, \<open>Update a v t\<close> is \<open>update\<close> reading acceleration \<open>a\<close>, level \<open>v\<close> and touch \<open>t\<close>.
\<close>

datatype imu_call = Poll bool | Update real bool bool

fun imu_call_level :: "imu_call \<Rightarrow> bool" where
  "imu_call_level (Poll v) = v"
| "imu_call_level (Update a v t) = v"

fun imu_step :: "imu \<Rightarrow> imu_call \<Rightarrow> imu" where
  "imu_step s (Poll v) = poll_button_only s v"
| "imu_step s (Update a v t) = IMUController_update s a v t"

text \<open>
  What the game reads: the value of \<open>jump\<close> after each \<open>update\<close> call of the sequence (the
  session reads it in \<open>Mario.update\<close>, right after \<open>imu_control.update()\<close>).
\<close>

fun jump_reads :: "imu \<Rightarrow> imu_call list \<Rightarrow> bool list" where
  "jump_reads s [] = []"
| "jump_reads s (Poll v # cs) = jump_reads (poll_button_only s v) cs"
| "jump_reads s (Update a v t # cs) =
     (let s1 = IMUController_update s a v t in jump s1 # jump_reads s1 cs)"

text \<open>
  The press edges of a sequence of calls, by the test both methods make
  (\<open>current_jump and not self.prev_jump\<close>); \<open>prev\<close> is \<open>prev_jump\<close> before the first call.
\<close>

fun press_edges :: "bool \<Rightarrow> imu_call list \<Rightarrow> nat" where
  "press_edges prev [] = 0"
| "press_edges prev (c # cs) =
     (if \<not> imu_call_level c \<and> \<not> prev then 1 else 0) + press_edges (\<not> imu_call_level c) cs"

definition count_updates :: "imu_call list \<Rightarrow> nat" where
  "count_updates cs = length (filter (\<lambda>c. case c of Poll v \<Rightarrow> False | Update a v t \<Rightarrow> True) cs)"

subsection \<open>Mario.update\<close>

text \<open>Lines 442-444.\<close>

definition mario_invincibility :: "mario \<Rightarrow> mario" where
  "mario_invincibility m = (if invincible m > 0 then m\<lparr>invincible := invincible m - 1\<rparr> else m)"

text \<open>Lines 446-464: horizontal velocity from the tilt, or deceleration.\<close>

definition mario_walk :: "imu \<Rightarrow> mario \<Rightarrow> mario" where
  "mario_walk ctl m =
     (if tilt_value ctl \<noteq> 0
      then (let move_speed = (if run ctl then RUN_SPEED else MOVE_SPEED);
                m1 = m\<lparr>m_vel_x := tilt_value ctl * move_speed\<rparr>;
                m2 = m1\<lparr>facing_right := (tilt_value ctl > 0)\<rparr>
            in if on_ground m2
               then (let m3 = m2\<lparr>anim_counter := anim_counter m2 + 1\<rparr>
                     in if anim_counter m3 > 5
                        then m3\<lparr>sprite_frame := (if sprite_frame m3 = 0 then 1 else 0),
                                 anim_counter := 0\<rparr>
                        else m3)
               else m2)
      else (let m1 = m\<lparr>m_vel_x := m_vel_x m * (8 / 10)\<rparr>;
                m2 = (if \<bar>m_vel_x m1\<bar> < 1 / 10 then m1\<lparr>m_vel_x := 0\<rparr> else m1)
            in m2\<lparr>sprite_frame := 0\<rparr>))"

text \<open>Lines 466-470.\<close>

definition mario_jump :: "imu \<Rightarrow> mario \<Rightarrow> mario" where
  "mario_jump ctl m =
     (if jump ctl \<and> on_ground m
      then m\<lparr>m_vel_y := JUMP_STRENGTH, jump_triggered := True, on_ground := False\<rparr>
      else m)"

text \<open>Lines 472-480: the airborne sprite, gravity and the terminal velocity.\<close>

definition mario_gravity :: "mario \<Rightarrow> mario" where
  "mario_gravity m =
     (let m1 = (if \<not> on_ground m then m\<lparr>sprite_frame := 2\<rparr> else m)
      in if \<not> on_ground m1
         then (let m2 = m1\<lparr>m_vel_y := m_vel_y m1 + GRAVITY\<rparr>
               in if m_vel_y m2 > 10 then m2\<lparr>m_vel_y := 10\<rparr> else m2)
         else m1)"

text \<open>Lines 482-487: integrate the position, clear \<open>on_ground\<close>.\<close>

definition mario_integrate :: "mario \<Rightarrow> mario" where
  "mario_integrate m =
     (let m1 = m\<lparr>m_x := m_x m + m_vel_x m\<rparr>;
          m2 = m1\<lparr>m_y := m_y m1 + m_vel_y m1\<rparr>
      in m2\<lparr>on_ground := False\<rparr>)"

text \<open>
  The state in which \<open>Mario.update\<close> enters its platform loop (lines 442-487), the
  "post-move" state.
\<close>

definition mario_move :: "mario \<Rightarrow> imu \<Rightarrow> mario" where
  "mario_move m ctl =
     mario_integrate (mario_gravity (mario_jump ctl (mario_walk ctl (mario_invincibility m))))"

text \<open>The bounding boxes of player and platform overlap (lines 507-510).\<close>

definition mario_overlaps :: "mario \<Rightarrow> platform \<Rightarrow> bool" where
  "mario_overlaps m p =
     (m_x m + m_width m > p_x p \<and> m_x m < p_x p + p_width p \<and>
      m_y m + m_height m > p_y p \<and> m_y m < p_y p + p_height p)"

text \<open>\<open>Mario.check_platform_collision(platform, prev_y)\<close>: the player and the returned flag.\<close>

definition check_platform_collision :: "mario \<Rightarrow> platform \<Rightarrow> real \<Rightarrow> mario \<times> bool" where
  "check_platform_collision m p prev_y =
     (if mario_overlaps m p
      then if prev_y + m_height m \<le> p_y p \<and> m_vel_y m > 0
           then (m\<lparr>m_y := p_y p - m_height m, m_vel_y := 0, on_ground := True,
                    jump_triggered := False\<rparr>, True)
           else if prev_y \<ge> p_y p + p_height p \<and> m_vel_y m < 0
           then (m\<lparr>m_y := p_y p + p_height p, m_vel_y := 0\<rparr>, True)
           else (m, False)
      else (m, False))"

text \<open>The proximity skip of the platform loop (line 492): far in x and far in y.\<close>

definition mario_far :: "mario \<Rightarrow> platform \<Rightarrow> bool" where
  "mario_far m p = (\<bar>p_x p - m_x m\<bar> > 150 \<and> \<bar>p_y p - m_y m\<bar> > 150)"

text \<open>Lines 490-496: the loop stops at the first platform whose check returns \<open>True\<close>.\<close>

fun mario_platform_loop :: "mario \<Rightarrow> real \<Rightarrow> platform list \<Rightarrow> mario" where
  "mario_platform_loop m prev_y [] = m"
| "mario_platform_loop m prev_y (p # ps) =
     (if mario_far m p then mario_platform_loop m prev_y ps
      else (case check_platform_collision m p prev_y of
              (m1, True) \<Rightarrow> m1
            | (m1, False) \<Rightarrow> mario_platform_loop m1 prev_y ps))"

text \<open>Lines 498-503: the ground plane.\<close>

definition mario_ground :: "mario \<Rightarrow> mario" where
  "mario_ground m =
     (if m_y m \<ge> GROUND_Y
      then m\<lparr>m_y := GROUND_Y, m_vel_y := 0, on_ground := True, jump_triggered := False\<rparr>
      else m)"

text \<open>\<open>Mario.update(imu_control, platforms)\<close>\<close>

definition Mario_update :: "mario \<Rightarrow> imu \<Rightarrow> platform list \<Rightarrow> mario" where
  "Mario_update m ctl platforms =
     (let prev_y = m_y m
      in mario_ground (mario_platform_loop (mario_move m ctl) prev_y platforms))"

subsection \<open>Level\<close>

record level =
  platforms :: "platform list"
  enemies :: "enemy list"
  coins :: "coin list"

text \<open>Python's \<open>range(start, stop, step)\<close> for a positive step.\<close>

definition py_range :: "int \<Rightarrow> int \<Rightarrow> int \<Rightarrow> int list" where
  "py_range start stop step =
     map (\<lambda>k. start + step * int k) [0..<nat ((stop - start + step - 1) div step)]"

text \<open>\<open>Level.create_level\<close>, in the order of its \<open>append\<close> calls.\<close>

definition level_platforms :: "platform list" where
  "level_platforms =
     map (\<lambda>i. Platform (real_of_int i) (GROUND_Y + 15) (real_of_int BLOCK_SIZE)
                 (real_of_int BLOCK_SIZE) Brick) (py_range 0 2200 BLOCK_SIZE)
     @ map (\<lambda>x. Platform x 70 (real_of_int BLOCK_SIZE) (real_of_int BLOCK_SIZE) Question)
         [200, 250, 300]
     @ map (\<lambda>x. Platform (real_of_int x) 80 (real_of_int BLOCK_SIZE)
                 (real_of_int BLOCK_SIZE) Brick) (py_range 400 550 BLOCK_SIZE)
     @ map (\<lambda>x. Platform (real_of_int x) 60 (real_of_int BLOCK_SIZE)
                 (real_of_int BLOCK_SIZE) Brick) (py_range 700 800 BLOCK_SIZE)
     @ [Platform 900 90 (real_of_int BLOCK_SIZE) (real_of_int (BLOCK_SIZE * 3)) Pipe]
     @ map (\<lambda>x. Platform (real_of_int x) 70 (real_of_int BLOCK_SIZE)
                 (real_of_int BLOCK_SIZE) Brick) (py_range 1100 1250 BLOCK_SIZE)
     @ map (\<lambda>x. let y_offset = ((x - 1400) div BLOCK_SIZE) * BLOCK_SIZE
                 in Platform (real_of_int x) (GROUND_Y - real_of_int y_offset)
                      (real_of_int BLOCK_SIZE) (real_of_int BLOCK_SIZE) Brick)
         (py_range 1400 1550 BLOCK_SIZE)
     @ map (\<lambda>x. Platform (real_of_int x) 50 (real_of_int BLOCK_SIZE)
                 (real_of_int BLOCK_SIZE) Brick) (py_range 1700 1900 BLOCK_SIZE)
     @ [Platform 2050 70 (real_of_int BLOCK_SIZE) (real_of_int (BLOCK_SIZE * 2)) Pipe]"

definition level_enemies :: "enemy list" where
  "level_enemies = map (\<lambda>x. Enemy x GROUND_Y) [150, 350, 600, 950, 1200, 1500, 1800]"

definition level_coins :: "coin list" where
  "level_coins =
     map (\<lambda>x. Coin x 50) [225, 275, 475, 525]
     @ [Coin 750 30, Coin 1175 50, Coin 1450 30, Coin 1750 30]"

text \<open>\<open>Level()\<close>\<close>

definition Level :: level where
  "Level = \<lparr>platforms = level_platforms, enemies = level_enemies, coins = level_coins\<rparr>"

subsection \<open>MarioGame\<close>

text \<open>
  The session's fields that \<open>update\<close> reads or writes. The display, the sprite pools,
  the audio manager, the NeoPixels and the overlay screens are written but never read
  back by \<open>update\<close>, and are left out.
\<close>

record game =
  level :: level
  mario :: mario
  camera :: camera
  imu_control :: imu
  score :: int
  g_coins :: int
  lives :: int
  game_over :: bool
  level_complete :: bool
  victory_timer :: int

text \<open>The hardware reads of one \<open>update\<close> call, in the order the code makes them.\<close>

record frame_input =
  btn_poll :: bool
  accel_x :: real
  btn_update :: bool
  touch_value :: bool

text \<open>
  The session as \<open>MarioGame.__init__\<close> leaves it, given the controller it constructed.
\<close>

definition MarioGame :: "imu \<Rightarrow> game" where
  "MarioGame ctl = \<lparr>level = Level, mario = Mario 40 GROUND_Y, camera = Camera,
     imu_control = ctl, score = 0, g_coins = 0, lives = 3, game_over = False,
     level_complete = False, victory_timer = 0\<rparr>"

text \<open>\<open>reset_level\<close>: a fresh level, player and camera; the counters and flags as at start.\<close>

definition reset_level :: "game \<Rightarrow> game" where
  "reset_level g = g\<lparr>level := Level, mario := Mario 40 GROUND_Y, camera := Camera,
     score := 0, g_coins := 0, lives := 3, game_over := False, level_complete := False,
     victory_timer := 0\<rparr>"

text \<open>Lines 1063-1068: both button polls, the tilt, and the run flag.\<close>

definition game_controls :: "game \<Rightarrow> frame_input \<Rightarrow> game" where
  "game_controls g i =
     (let c1 = poll_button_only (imu_control g) (btn_poll i);
          c2 = IMUController_update c1 (accel_x i) (btn_update i) (touch_value i);
          g1 = g\<lparr>imu_control := c2\<rparr>
      in g1\<lparr>mario := (mario g1)\<lparr>is_running := run (imu_control g1)\<rparr>\<rparr>)"

text \<open>Line 1074.\<close>

definition game_mario :: "game \<Rightarrow> game" where
  "game_mario g = g\<lparr>mario := Mario_update (mario g) (imu_control g) (platforms (level g))\<rparr>"

text \<open>Line 1081.\<close>

definition game_camera :: "game \<Rightarrow> game" where
  "game_camera g = g\<lparr>camera := Camera_update (camera g) (m_x (mario g))\<rparr>"

text \<open>
  Lines 1089-1107, the interaction of the player with one enemy whose \<open>update\<close> returned
  \<open>False\<close>: a stomp, a lost life, or nothing.
\<close>

definition enemy_interact :: "game \<Rightarrow> enemy \<Rightarrow> game \<times> enemy" where
  "enemy_interact g e =
     (let m = mario g
      in if alive e \<and> invincible m = 0
         then if check_collision (m_x m) (m_y m) (m_width m) (m_height m)
                   (e_x e) (e_y e) (e_width e) (e_height e)
              then if m_vel_y m > 0 \<and> m_y m < e_y e
                   then (g\<lparr>score := score g + 100, mario := m\<lparr>m_vel_y := - 6\<rparr>\<rparr>, stomp e)
                   else (let g1 = g\<lparr>lives := lives g - 1, mario := m\<lparr>invincible := 120\<rparr>\<rparr>
                         in (if lives g1 \<le> 0 then g1\<lparr>game_over := True\<rparr> else g1, e))
              else (g, e)
         else (g, e))"

text \<open>
  Lines 1084-1107: the loop runs over a copy of \<open>level.enemies\<close>; an enemy whose \<open>update\<close>
  returns \<open>True\<close> is removed from \<open>level.enemies\<close>, every other one stays in it. The
  result is the session and the list \<open>level.enemies\<close> holds after the loop.
\<close>

fun enemies_loop :: "game \<Rightarrow> enemy list \<Rightarrow> game \<times> enemy list" where
  "enemies_loop g [] = (g, [])"
| "enemies_loop g (e # es) =
     (case Enemy_update e (platforms (level g)) of
        (e1, True) \<Rightarrow> enemies_loop g es
      | (e1, False) \<Rightarrow>
          (case enemy_interact g e1 of
             (g1, e2) \<Rightarrow> (case enemies_loop g1 es of (g2, es2) \<Rightarrow> (g2, e2 # es2))))"

definition game_enemies :: "game \<Rightarrow> game" where
  "game_enemies g =
     (case enemies_loop g (enemies (level g)) of
        (g1, es) \<Rightarrow> g1\<lparr>level := (level g1)\<lparr>enemies := es\<rparr>\<rparr>)"

text \<open>Lines 1111-1119, for one coin.\<close>

definition coin_step :: "game \<Rightarrow> coin \<Rightarrow> game \<times> coin" where
  "coin_step g c =
     (let m = mario g
      in if \<not> collected c
         then if check_collision (m_x m) (m_y m) (m_width m) (m_height m) (c_x c) (c_y c) 8 14
              then (g\<lparr>g_coins := g_coins g + 1, score := score g + 200\<rparr>,
                    c\<lparr>collected := True\<rparr>)
              else (g, c)
         else (g, c))"

fun coins_loop :: "game \<Rightarrow> coin list \<Rightarrow> game \<times> coin list" where
  "coins_loop g [] = (g, [])"
| "coins_loop g (c # cs) =
     (case coin_step g c of
        (g1, c1) \<Rightarrow> (case coins_loop g1 cs of (g2, cs2) \<Rightarrow> (g2, c1 # cs2)))"

definition game_coins :: "game \<Rightarrow> game" where
  "game_coins g =
     (case coins_loop g (coins (level g)) of
        (g1, cs) \<Rightarrow> g1\<lparr>level := (level g1)\<lparr>coins := cs\<rparr>\<rparr>)"

text \<open>Lines 1121-1129: the level-completion check.\<close>

definition level_check :: "game \<Rightarrow> game" where
  "level_check g =
     (if \<not> level_complete g \<and> m_x (mario g) \<ge> 2075
      then g\<lparr>level_complete := True, victory_timer := 180\<rparr>
      else g)"

text \<open>Lines 1135-1147: the fall-death check.\<close>

definition fall_death :: "game \<Rightarrow> game" where
  "fall_death g =
     (if m_y (mario g) > DISPLAY_HEIGHT
      then (let g1 = g\<lparr>lives := lives g - 1\<rparr>
            in if lives g1 \<le> 0 then g1\<lparr>game_over := True\<rparr>
               else g1\<lparr>mario := (mario g1)\<lparr>m_x := 40, m_y := GROUND_Y, invincible := 120\<rparr>\<rparr>)
      else g)"

text \<open>
  The simulation part of a frame, lines 1063-1119: controls, player, camera, enemies and
  coins.
\<close>

definition simulate :: "game \<Rightarrow> frame_input \<Rightarrow> game" where
  "simulate g i = game_coins (game_enemies (game_camera (game_mario (game_controls g i))))"

text \<open>Lines 1055-1061: one frame of the victory countdown.\<close>

definition victory_countdown :: "game \<Rightarrow> game" where
  "victory_countdown g =
     (let g1 = g\<lparr>victory_timer := victory_timer g - 1\<rparr>
      in if victory_timer g1 = 0 then reset_level g1 else g1)"

text \<open>\<open>MarioGame.update\<close>, one frame.\<close>

definition MarioGame_update :: "game \<Rightarrow> frame_input \<Rightarrow> game" where
  "MarioGame_update g i =
     (if game_over g then g
      else if level_complete g \<and> victory_timer g > 0 then victory_countdown g
      else fall_death (level_check (simulate g i)))"



text \<open>The controller after a run of \<open>poll_button_only\<close> calls, one level per call.\<close>

definition poll_run :: "imu \<Rightarrow> bool list \<Rightarrow> imu" where
  "poll_run c levels = foldl poll_button_only c levels"

section \<open>Properties\<close>

subsection \<open>The camera stays in the scroll range\<close>

lemma Camera_update_bounds:
  assumes "0 \<le> cam_x c" "cam_x c \<le> 1960" "smoothing c = 2 / 10"
  shows "0 \<le> cam_x (Camera_update c px) \<and> cam_x (Camera_update c px) \<le> 1960
     \<and> smoothing (Camera_update c px) = 2 / 10"
proof -
  define t where "t = max 0 (min (px - 80) (1960::real))"
  have t: "0 \<le> t" "t \<le> 1960" by (simp_all add: t_def)
  have eq: "cam_x (Camera_update c px) = cam_x c + (t - cam_x c) * (2 / 10)"
    by (simp add: Camera_update_def Let_def DISPLAY_WIDTH_def t_def assms(3))
  have sm: "smoothing (Camera_update c px) = 2 / 10"
    by (simp add: Camera_update_def Let_def assms(3))
  have "0 \<le> cam_x c + (t - cam_x c) * (2 / 10)"
    using t assms(1,2) by (simp add: field_simps)
  moreover have "cam_x c + (t - cam_x c) * (2 / 10) \<le> 1960"
    using t assms(1,2) by (simp add: field_simps)
  ultimately show ?thesis using eq sm by simp
qed

lemma camera_run_bounds:
  "0 \<le> cam_x c \<Longrightarrow> cam_x c \<le> 1960 \<Longrightarrow> smoothing c = 2 / 10 \<Longrightarrow>
   0 \<le> cam_x (camera_run c xs) \<and> cam_x (camera_run c xs) \<le> 1960"
proof (induction xs arbitrary: c)
  case Nil
  then show ?case by (simp add: camera_run_def)
next
  case (Cons a xs)
  from Camera_update_bounds[OF Cons.prems, of a] Cons.IH[of "Camera_update c a"]
  show ?case by (simp add: camera_run_def)
qed

text \<open>
  Claim C3. After any sequence of \<open>Camera.update\<close> calls from the initial camera, whatever
  player x each call is given (inside the world or not), the offset \<open>Camera.x\<close> lies in
  \<open>[0, 2200 - DISPLAY_WIDTH]\<close>.
\<close>

theorem C3_camera_offset_in_range:
  "0 \<le> cam_x (camera_run Camera xs) \<and>
   cam_x (camera_run Camera xs) \<le> real_of_int (2200 - DISPLAY_WIDTH)"
  using camera_run_bounds[of Camera xs] by (simp add: Camera_def DISPLAY_WIDTH_def)

subsection \<open>The tilt reading\<close>

lemma imu_tilt_button [simp]:
  "tilt_value (imu_button s b) = tilt_value s" "i_left (imu_button s b) = i_left s"
  "i_right (imu_button s b) = i_right s"
  by (simp_all add: imu_button_def Let_def)

lemma imu_tilt_touch [simp]:
  "tilt_value (imu_touch s t) = tilt_value s" "i_left (imu_touch s t) = i_left s"
  "i_right (imu_touch s t) = i_right s"
  by (simp_all add: imu_touch_def)

lemma imu_tilt_cases:
  fixes s :: imu and a :: real
  defines "adj \<equiv> a - offset_x s"
  shows "\<bar>adj\<bar> < 8 / 10 \<Longrightarrow>
           tilt_value (imu_tilt s a) = 0 \<and> \<not> i_left (imu_tilt s a) \<and> \<not> i_right (imu_tilt s a)"
    and "8 / 10 \<le> adj \<Longrightarrow>
           tilt_value (imu_tilt s a) = min 1 ((adj - 8 / 10) / 6) \<and>
           i_right (imu_tilt s a) \<and> \<not> i_left (imu_tilt s a)"
    and "adj \<le> - (8 / 10) \<Longrightarrow>
           tilt_value (imu_tilt s a) = max (- 1) ((adj + 8 / 10) / 6) \<and>
           i_left (imu_tilt s a) \<and> \<not> i_right (imu_tilt s a)"
  unfolding adj_def
  by (simp_all add: imu_tilt_def Let_def TILT_DEADZONE_def TILT_MAX_def)

text \<open>
  Claim C8. \<open>IMUController.update\<close> on a raw reading \<open>a\<close>, with \<open>adj = a - offset_x\<close> the
  calibrated reading: inside the deadzone (\<open>|adj| < TILT_DEADZONE\<close>, the code's test) the
  tilt value is exactly 0 and \<open>left\<close> and \<open>right\<close> are both false; outside it the magnitude
  of the tilt value is the remaining magnitude \<open>|adj| - TILT_DEADZONE\<close> divided by
  \<open>TILT_MAX\<close> and clamped to 1, so the tilt value always lies in \<open>[-1, 1]\<close>; and the sign
  decides the flags: a positive reading sets \<open>right\<close> only, a negative one \<open>left\<close> only.
\<close>

theorem C8_tilt_deadzone_and_range:
  fixes s :: imu and a :: real and b t :: bool
  defines "adj \<equiv> a - offset_x s"
  defines "s' \<equiv> IMUController_update s a b t"
  shows "(\<bar>adj\<bar> < TILT_DEADZONE \<longrightarrow> tilt_value s' = 0 \<and> \<not> i_left s' \<and> \<not> i_right s')
    \<and> (TILT_DEADZONE \<le> \<bar>adj\<bar> \<longrightarrow>
          \<bar>tilt_value s'\<bar> = min 1 ((\<bar>adj\<bar> - TILT_DEADZONE) / TILT_MAX))
    \<and> (TILT_DEADZONE \<le> adj \<longrightarrow>
          tilt_value s' = min 1 ((adj - TILT_DEADZONE) / TILT_MAX) \<and> i_right s' \<and> \<not> i_left s')
    \<and> (adj \<le> - TILT_DEADZONE \<longrightarrow>
          tilt_value s' = max (- 1) ((adj + TILT_DEADZONE) / TILT_MAX) \<and> i_left s' \<and> \<not> i_right s')
    \<and> - 1 \<le> tilt_value s' \<and> tilt_value s' \<le> 1
    \<and> (0 < tilt_value s' \<longrightarrow> i_right s' \<and> \<not> i_left s')
    \<and> (tilt_value s' < 0 \<longrightarrow> i_left s' \<and> \<not> i_right s')"
proof -
  have t: "tilt_value s' = tilt_value (imu_tilt s a)" "i_left s' = i_left (imu_tilt s a)"
    "i_right s' = i_right (imu_tilt s a)"
    by (simp_all add: s'_def IMUController_update_def)
  consider (dead) "\<bar>adj\<bar> < 8 / 10" | (pos) "8 / 10 \<le> adj" | (neg) "adj \<le> - (8 / 10)"
    by linarith
  then show ?thesis
  proof cases
    case dead
    from dead have n: "\<not> 8 / 10 \<le> \<bar>adj\<bar>" "\<not> 8 / 10 \<le> adj" "\<not> adj \<le> - (8 / 10)"
      by linarith+
    from imu_tilt_cases(1)[of a s] dead have
      "tilt_value s' = 0" "\<not> i_left s'" "\<not> i_right s'"
      by (simp_all add: t adj_def)
    with dead n show ?thesis
      unfolding TILT_DEADZONE_def TILT_MAX_def by simp
  next
    case pos
    from imu_tilt_cases(2)[of a s] pos have
      v: "tilt_value s' = min 1 ((adj - 8 / 10) / 6)" and f: "i_right s'" "\<not> i_left s'"
      by (simp_all add: t adj_def)
    from pos have n: "\<not> \<bar>adj\<bar> < 8 / 10" "8 / 10 \<le> \<bar>adj\<bar>" "\<not> adj \<le> - (8 / 10)" "\<bar>adj\<bar> = adj"
      by linarith+
    from pos have "0 \<le> (adj - 8 / 10) / 6" by simp
    then have r: "0 \<le> min 1 ((adj - 8 / 10) / 6)" "min 1 ((adj - 8 / 10) / 6) \<le> 1"
      "- 1 \<le> min 1 ((adj - 8 / 10) / 6)" "\<not> min 1 ((adj - 8 / 10) / 6) < 0"
      by (simp_all add: min_def)
    from v pos f n r show ?thesis
      unfolding TILT_DEADZONE_def TILT_MAX_def by simp
  next
    case neg
    from imu_tilt_cases(3)[of a s] neg have
      v: "tilt_value s' = max (- 1) ((adj + 8 / 10) / 6)" and f: "i_left s'" "\<not> i_right s'"
      by (simp_all add: t adj_def)
    from neg have n: "\<not> \<bar>adj\<bar> < 8 / 10" "8 / 10 \<le> \<bar>adj\<bar>" "\<not> 8 / 10 \<le> adj" "\<bar>adj\<bar> = - adj"
      by linarith+
    from neg have le: "(adj + 8 / 10) / 6 \<le> 0" by simp
    then have r: "max (- 1) ((adj + 8 / 10) / 6) \<le> 0" "max (- 1) ((adj + 8 / 10) / 6) \<le> 1"
      "- 1 \<le> max (- 1) ((adj + 8 / 10) / 6)" "\<not> 0 < max (- 1) ((adj + 8 / 10) / 6)"
      by (simp_all add: max_def)
    have ab: "(\<bar>adj\<bar> - 8 / 10) / 6 = - ((adj + 8 / 10) / 6)"
      unfolding n(4) by (simp add: field_simps)
    have m: "\<bar>max (- 1) ((adj + 8 / 10) / 6)\<bar> = min 1 ((\<bar>adj\<bar> - 8 / 10) / 6)"
      unfolding ab using le by (simp add: max_def min_def abs_if)
    from v neg f n(1-3) r m show ?thesis
      unfolding TILT_DEADZONE_def TILT_MAX_def by simp
  qed
qed


theorem C8_tilt_deadzone_and_range_witness:
  "\<bar>3 / 10 - offset_x (IMUController 0 True)\<bar> < TILT_DEADZONE \<and>
   tilt_value (IMUController_update (IMUController 0 True) (3 / 10) True False) = 0 \<and>
   \<not> i_left (IMUController_update (IMUController 0 True) (3 / 10) True False) \<and>
   \<not> i_right (IMUController_update (IMUController 0 True) (3 / 10) True False) \<and>
   TILT_DEADZONE \<le> 38 / 10 - offset_x (IMUController 0 True) \<and>
   tilt_value (IMUController_update (IMUController 0 True) (38 / 10) True False) = 1 / 2 \<and>
   i_right (IMUController_update (IMUController 0 True) (38 / 10) True False) \<and>
   - 10 - offset_x (IMUController 0 True) \<le> - TILT_DEADZONE \<and>
   tilt_value (IMUController_update (IMUController 0 True) (- 10) True False) = - 1 \<and>
   i_left (IMUController_update (IMUController 0 True) (- 10) True False)"
  using C8_tilt_deadzone_and_range[where s = "IMUController 0 True" and a = "3 / 10"
      and b = True and t = False]
    C8_tilt_deadzone_and_range[where s = "IMUController 0 True" and a = "38 / 10"
      and b = True and t = False]
    C8_tilt_deadzone_and_range[where s = "IMUController 0 True" and a = "- 10"
      and b = True and t = False]
  by (simp add: IMUController_def TILT_DEADZONE_def TILT_MAX_def)

subsection \<open>Mario.update: fields that the phases keep\<close>

lemma check_platform_collision_keeps:
  "invincible (fst (check_platform_collision m p prev)) = invincible m"
  "m_height (fst (check_platform_collision m p prev)) = m_height m"
  "m_x (fst (check_platform_collision m p prev)) = m_x m"
  by (simp_all add: check_platform_collision_def)


lemma mario_platform_loop_invincible:
  "invincible (mario_platform_loop m prev ps) = invincible m"
proof (induction ps arbitrary: m)
  case Nil
  show ?case by simp
next
  case (Cons p ps)
  obtain m1 hit where c: "check_platform_collision m p prev = (m1, hit)"
    by (cases "check_platform_collision m p prev")
  from check_platform_collision_keeps(1)[of m p prev] c have "invincible m1 = invincible m"
    by simp
  with Cons.IH[of m] Cons.IH[of m1] c show ?case by (cases hit) simp_all
qed

lemma mario_move_invincible:
  "invincible (mario_move m ctl) = invincible (mario_invincibility m)"
  by (simp add: mario_move_def mario_integrate_def mario_gravity_def mario_jump_def
        mario_walk_def Let_def)

lemma mario_ground_invincible: "invincible (mario_ground m) = invincible m"
  by (simp add: mario_ground_def)

lemma Mario_update_invincible:
  "invincible (Mario_update m ctl ps) = (if invincible m > 0 then invincible m - 1 else invincible m)"
  by (simp add: Mario_update_def Let_def mario_ground_invincible mario_platform_loop_invincible
        mario_move_invincible mario_invincibility_def)

lemma mario_ground_le: "m_y (mario_ground m) \<le> GROUND_Y"
  by (simp add: mario_ground_def)

lemma Mario_update_le: "m_y (Mario_update m ctl ps) \<le> GROUND_Y"
  by (simp add: Mario_update_def Let_def mario_ground_le)

subsection \<open>The session: what the enemy and coin loops keep\<close>

lemma enemy_interact_keeps:
  "level (fst (enemy_interact g e)) = level g"
  "m_x (mario (fst (enemy_interact g e))) = m_x (mario g)"
  "m_y (mario (fst (enemy_interact g e))) = m_y (mario g)"
  "m_width (mario (fst (enemy_interact g e))) = m_width (mario g)"
  "m_height (mario (fst (enemy_interact g e))) = m_height (mario g)"
  "g_coins (fst (enemy_interact g e)) = g_coins g"
  "level_complete (fst (enemy_interact g e)) = level_complete g"
  "victory_timer (fst (enemy_interact g e)) = victory_timer g"
  by (simp_all add: enemy_interact_def Let_def)

lemma enemies_loop_keeps:
  "level (fst (enemies_loop g es)) = level g \<and>
   m_x (mario (fst (enemies_loop g es))) = m_x (mario g) \<and>
   m_y (mario (fst (enemies_loop g es))) = m_y (mario g) \<and>
   m_width (mario (fst (enemies_loop g es))) = m_width (mario g) \<and>
   m_height (mario (fst (enemies_loop g es))) = m_height (mario g) \<and>
   g_coins (fst (enemies_loop g es)) = g_coins g \<and>
   level_complete (fst (enemies_loop g es)) = level_complete g \<and>
   victory_timer (fst (enemies_loop g es)) = victory_timer g"
proof (induction es arbitrary: g)
  case Nil
  show ?case by simp
next
  case (Cons e es)
  obtain e1 r where u: "Enemy_update e (platforms (level g)) = (e1, r)"
    by (cases "Enemy_update e (platforms (level g))")
  obtain g1 e2 where i: "enemy_interact g e1 = (g1, e2)"
    by (cases "enemy_interact g e1")
  obtain g2 es2 where l: "enemies_loop g1 es = (g2, es2)"
    by (cases "enemies_loop g1 es")
  show ?case
  proof (cases r)
    case True
    with u Cons.IH[of g] show ?thesis by simp
  next
    case False
    from enemy_interact_keeps[of g e1] i have
      "level g1 = level g" "m_x (mario g1) = m_x (mario g)" "m_y (mario g1) = m_y (mario g)"
      "m_width (mario g1) = m_width (mario g)" "m_height (mario g1) = m_height (mario g)"
      "g_coins g1 = g_coins g" "level_complete g1 = level_complete g"
      "victory_timer g1 = victory_timer g"
      by simp_all
    with False u i l Cons.IH[of g1] show ?thesis by simp
  qed
qed

lemma coin_step_keeps:
  "level (fst (coin_step g c)) = level g" "mario (fst (coin_step g c)) = mario g"
  "lives (fst (coin_step g c)) = lives g" "game_over (fst (coin_step g c)) = game_over g"
  "level_complete (fst (coin_step g c)) = level_complete g"
  "victory_timer (fst (coin_step g c)) = victory_timer g"
  by (simp_all add: coin_step_def Let_def)

lemma coins_loop_keeps:
  "level (fst (coins_loop g cs)) = level g \<and> mario (fst (coins_loop g cs)) = mario g \<and>
   lives (fst (coins_loop g cs)) = lives g \<and> game_over (fst (coins_loop g cs)) = game_over g \<and>
   level_complete (fst (coins_loop g cs)) = level_complete g \<and>
   victory_timer (fst (coins_loop g cs)) = victory_timer g"
proof (induction cs arbitrary: g)
  case Nil
  show ?case by simp
next
  case (Cons c cs)
  obtain g1 c1 where s: "coin_step g c = (g1, c1)" by (cases "coin_step g c")
  obtain g2 cs2 where l: "coins_loop g1 cs = (g2, cs2)" by (cases "coins_loop g1 cs")
  from coin_step_keeps[of g c] s have
    "level g1 = level g" "mario g1 = mario g" "lives g1 = lives g" "game_over g1 = game_over g"
    "level_complete g1 = level_complete g" "victory_timer g1 = victory_timer g"
    by simp_all
  with s l Cons.IH[of g1] show ?case by simp
qed

lemma game_enemies_mario_y: "m_y (mario (game_enemies g)) = m_y (mario g)"
proof -
  obtain g1 es where l: "enemies_loop g (enemies (level g)) = (g1, es)"
    by (cases "enemies_loop g (enemies (level g))")
  with enemies_loop_keeps[of g "enemies (level g)"] show ?thesis
    by (simp add: game_enemies_def)
qed

lemma game_coins_mario: "mario (game_coins g) = mario g"
proof -
  obtain g1 cs where l: "coins_loop g (coins (level g)) = (g1, cs)"
    by (cases "coins_loop g (coins (level g))")
  with coins_loop_keeps[of g "coins (level g)"] show ?thesis
    by (simp add: game_coins_def)
qed

lemma simulate_mario_y: "m_y (mario (simulate g i)) \<le> GROUND_Y"
  by (simp add: simulate_def game_coins_mario game_enemies_mario_y game_camera_def
        game_mario_def Mario_update_le)

lemma level_check_mario: "mario (level_check g) = mario g"
  by (simp add: level_check_def)

text \<open>
  Claim C10. After \<open>Mario.update\<close> the player's y is at most \<open>GROUND_Y\<close> (for every
  pre-state, in particular one with y at most \<open>GROUND_Y\<close>), and so in a frame of the
  session the fall-death test \<open>mario.y > DISPLAY_HEIGHT\<close> is false where it is made: the
  fall-death step changes nothing and takes no life.
\<close>

theorem C10_ground_clamp_no_fall_death:
  "m_y (Mario_update m ctl ps) \<le> GROUND_Y \<and>
   \<not> m_y (mario (level_check (simulate g i))) > DISPLAY_HEIGHT \<and>
   fall_death (level_check (simulate g i)) = level_check (simulate g i) \<and>
   lives (fall_death (level_check (simulate g i))) = lives (simulate g i)"
proof -
  have y: "m_y (mario (level_check (simulate g i))) \<le> GROUND_Y"
    by (simp add: level_check_mario simulate_mario_y)
  then have n: "\<not> m_y (mario (level_check (simulate g i))) > DISPLAY_HEIGHT"
    by (simp add: GROUND_Y_def DISPLAY_HEIGHT_def)
  then have f: "fall_death (level_check (simulate g i)) = level_check (simulate g i)"
    by (simp add: fall_death_def)
  have "lives (level_check (simulate g i)) = lives (simulate g i)"
    by (simp add: level_check_def)
  with n f show ?thesis by (simp add: Mario_update_le)
qed


subsection \<open>Landing on a platform\<close>

lemma mario_move_height: "m_height (mario_move m ctl) = m_height m"
  by (simp add: mario_move_def mario_integrate_def mario_gravity_def mario_jump_def
        mario_walk_def mario_invincibility_def Let_def)

lemma mario_integrate_y: "m_y (mario_integrate m) = m_y m + m_vel_y m"
  "m_vel_y (mario_integrate m) = m_vel_y m"
  by (simp_all add: mario_integrate_def Let_def)

lemma mario_before_integrate_y:
  "m_y (mario_gravity (mario_jump ctl (mario_walk ctl (mario_invincibility m)))) = m_y m"
  by (simp add: mario_gravity_def mario_jump_def mario_walk_def mario_invincibility_def Let_def)

lemma mario_move_y: "m_y (mario_move m ctl) = m_y m + m_vel_y (mario_move m ctl)"
  unfolding mario_move_def mario_integrate_y mario_before_integrate_y ..

text \<open>
  One call of \<open>check_platform_collision\<close> as \<open>Mario.update\<close> makes it, on the post-move
  player with \<open>prev_y\<close> the y before the move: the code tests \<open>vel_y > 0\<close>, but with
  \<open>vel_y = 0\<close> the move leaves y unchanged, so a previous bottom edge at or above the
  platform top excludes an overlap. With a non-negative velocity the call lands.
\<close>

lemma check_platform_collision_lands:
  assumes prev: "m_y m + m_height m \<le> p_y p"
    and vel: "m_vel_y (mario_move m ctl) \<ge> 0"
    and ov: "mario_overlaps (mario_move m ctl) p"
  shows "snd (check_platform_collision (mario_move m ctl) p (m_y m)) \<and>
         m_y (fst (check_platform_collision (mario_move m ctl) p (m_y m))) = p_y p - m_height m \<and>
         m_vel_y (fst (check_platform_collision (mario_move m ctl) p (m_y m))) = 0"
proof -
  from ov have "m_y (mario_move m ctl) + m_height m > p_y p"
    by (simp add: mario_overlaps_def mario_move_height)
  with prev mario_move_y[of m ctl] have "m_vel_y (mario_move m ctl) > 0"
    by linarith
  with prev ov show ?thesis
    by (simp add: check_platform_collision_def mario_move_height)
qed

subsection \<open>Invincibility\<close>

lemma enemy_interact_invincible:
  "invincible (mario g) \<noteq> 0 \<Longrightarrow> enemy_interact g e = (g, e)"
  by (simp add: enemy_interact_def Let_def)

lemma enemies_loop_invincible:
  "invincible (mario g) \<noteq> 0 \<Longrightarrow>
   enemies_loop g es =
     (g, map fst (filter (\<lambda>r. \<not> snd r) (map (\<lambda>e. Enemy_update e (platforms (level g))) es)))"
proof (induction es)
  case Nil
  show ?case by simp
next
  case (Cons e es)
  obtain e1 r where u: "Enemy_update e (platforms (level g)) = (e1, r)"
    by (cases "Enemy_update e (platforms (level g))")
  from Cons u enemy_interact_invincible[of g e1] show ?case
    by (cases r) simp_all
qed

text \<open>
  Claim C6. A positive invincibility counter is decreased by one by \<open>Mario.update\<close>, so it
  strictly decreases and stays non-negative; and while it is positive the interaction
  with every enemy is skipped: the enemy loop leaves lives, score, the game-over flag and
  the player as they are, and the enemies it keeps are exactly the results of their own
  \<open>update\<close> (none is stomped).
\<close>

theorem C6_invincibility_counts_down_and_shields:
  "(invincible m > 0 \<longrightarrow>
      invincible (Mario_update m ctl ps) = invincible m - 1 \<and>
      0 \<le> invincible (Mario_update m ctl ps) \<and>
      invincible (Mario_update m ctl ps) < invincible m) \<and>
   (invincible (mario g) > 0 \<longrightarrow>
      enemy_interact g e = (g, e) \<and>
      enemies_loop g es =
        (g, map fst (filter (\<lambda>r. \<not> snd r)
                       (map (\<lambda>e. Enemy_update e (platforms (level g))) es))) \<and>
      lives (game_enemies g) = lives g \<and> score (game_enemies g) = score g \<and>
      game_over (game_enemies g) = game_over g \<and> mario (game_enemies g) = mario g)"
proof -
  have a: "invincible (mario g) > 0 \<Longrightarrow> enemy_interact g e = (g, e)"
    using enemy_interact_invincible[of g e] by simp
  have b: "invincible (mario g) > 0 \<Longrightarrow> enemies_loop g es =
        (g, map fst (filter (\<lambda>r. \<not> snd r)
                       (map (\<lambda>e. Enemy_update e (platforms (level g))) es)))"
    using enemies_loop_invincible[of g es] by simp
  have c: "invincible (mario g) > 0 \<Longrightarrow>
      lives (game_enemies g) = lives g \<and> score (game_enemies g) = score g \<and>
      game_over (game_enemies g) = game_over g \<and> mario (game_enemies g) = mario g"
    using enemies_loop_invincible[of g "enemies (level g)"] by (simp add: game_enemies_def)
  from a b c show ?thesis by (simp add: Mario_update_invincible)
qed


theorem C6_invincibility_counts_down_and_shields_witness:
  "invincible ((Mario 150 105)\<lparr>invincible := 120\<rparr>) > 0 \<and>
   invincible (Mario_update ((Mario 150 105)\<lparr>invincible := 120\<rparr>) (IMUController 0 True) [])
     = 119 \<and>
   invincible (mario ((MarioGame (IMUController 0 True))
                        \<lparr>mario := (Mario 150 105)\<lparr>invincible := 119\<rparr>\<rparr>)) > 0 \<and>
   check_collision 150 105 16 16 (e_x (Enemy 150 104)) (e_y (Enemy 150 104)) 16 16 \<and>
   enemy_interact ((MarioGame (IMUController 0 True))
                     \<lparr>mario := (Mario 150 105)\<lparr>invincible := 119\<rparr>\<rparr>) (Enemy 150 104)
     = ((MarioGame (IMUController 0 True))\<lparr>mario := (Mario 150 105)\<lparr>invincible := 119\<rparr>\<rparr>,
        Enemy 150 104) \<and>
   lives (game_enemies ((MarioGame (IMUController 0 True))
                     \<lparr>mario := (Mario 150 105)\<lparr>invincible := 119\<rparr>\<rparr>)) = 3"
  using C6_invincibility_counts_down_and_shields[where m = "(Mario 150 105)\<lparr>invincible := 120\<rparr>"
      and ctl = "IMUController 0 True" and ps = "[]"
      and g = "(MarioGame (IMUController 0 True))\<lparr>mario := (Mario 150 105)\<lparr>invincible := 119\<rparr>\<rparr>"
      and e = "Enemy 150 104" and es = "[]"]
  by (simp add: Mario_def MarioGame_def check_collision_def Enemy_def)

subsection \<open>Enemy.update: the wall bump\<close>

lemma enemy_wall_loop_find:
  "enemy_wall_loop e ps =
     (case find (\<lambda>q. \<not> enemy_far e q \<and> enemy_wall_hit e q) ps of
        None \<Rightarrow> e | Some p \<Rightarrow> enemy_bounce e p)"
  by (induction ps) simp_all

lemma enemy_land_loop_keeps:
  "e_vel_x (enemy_land_loop e ps) = e_vel_x e" "e_x (enemy_land_loop e ps) = e_x e"
  "alive (enemy_land_loop e ps) = alive e"
  by (induction ps) simp_all

lemma enemy_move_keeps: "e_vel_x (enemy_move e) = e_vel_x e" "alive (enemy_move e) = alive e"
  by (simp_all add: enemy_move_def Let_def)

lemma enemy_animate_keeps:
  "e_x (enemy_animate e) = e_x e" "e_y (enemy_animate e) = e_y e"
  "e_vel_x (enemy_animate e) = e_vel_x e" "alive (enemy_animate e) = alive e"
  by (simp_all add: enemy_animate_def Let_def)

lemma enemy_bounce_left:
  "e_vel_x e < 0 \<Longrightarrow> e_x (enemy_bounce e p) = p_x p + p_width p \<and>
     e_vel_x (enemy_bounce e p) = - e_vel_x e"
  by (simp add: enemy_bounce_def Let_def)

lemma C9_eval_land:
  "enemy_land_loop (enemy_move (Enemy 316 104)) level_platforms
     = (Enemy 315 104)\<lparr>e_on_ground := True\<rparr>"
  by code_simp

lemma C9_eval_update:
  "Enemy_update (Enemy 316 104) level_platforms =
     ((Enemy 316 104)\<lparr>e_vel_x := 1, e_on_ground := True, frame_counter := 1\<rparr>, False)"
  by code_simp

lemma C9_eval_member: "Platform 300 70 16 16 Question \<in> set level_platforms"
  by code_simp

lemma C9_eval_find:
  "find (\<lambda>q. \<not> enemy_far ((Enemy 315 104)\<lparr>e_on_ground := True\<rparr>) q \<and>
              enemy_wall_hit ((Enemy 315 104)\<lparr>e_on_ground := True\<rparr>) q) level_platforms
     = Some (Platform 300 70 16 16 Question)"
  by code_simp

text \<open>
  Claim C9 as stated fails. In the level of the game, the enemy spawned at x = 350 walks
  left on the ground (y = 104) until, from x = 316, its move to x = 315 makes it overlap
  the question block at x = 300 horizontally, with its bottom edge (120) below the block's
  (86). Its velocity flips to 1, and its x becomes 316, the block's right edge, not the
  block's left edge minus the enemy width (284).
\<close>

theorem C9_counterexample:
  "alive (Enemy 316 104) \<and> e_vel_x (Enemy 316 104) < 0 \<and>
   Platform 300 70 16 16 Question \<in> set level_platforms \<and>
   enemy_wall_hit (enemy_land_loop (enemy_move (Enemy 316 104)) level_platforms)
     (Platform 300 70 16 16 Question) \<and>
   e_vel_x (fst (Enemy_update (Enemy 316 104) level_platforms)) = 1 \<and>
   e_x (fst (Enemy_update (Enemy 316 104) level_platforms)) = 316 \<and>
   e_x (fst (Enemy_update (Enemy 316 104) level_platforms))
     \<noteq> p_x (Platform 300 70 16 16 Question) - e_width (Enemy 316 104)"
  unfolding C9_eval_land C9_eval_update
  using C9_eval_member
  by (simp add: Enemy_def Platform_def enemy_wall_hit_def ENEMY_WIDTH_def ENEMY_HEIGHT_def)

text \<open>
  Claim C9, amended. For a live enemy moving left (\<open>vel_x < 0\<close>): if, after its move and
  its landing step, \<open>p\<close> is the first platform of the list within the proximity range that
  it overlaps horizontally with its bottom edge below the platform's bottom edge, then
  \<open>update\<close> flips the sign of \<open>vel_x\<close> and puts the enemy flush against the platform's right
  edge: its x is \<open>platform.x + platform.width\<close>.
\<close>

theorem C9_left_moving_enemy_bounces_to_right_edge:
  assumes "alive e" and "e_vel_x e < 0"
    and "find (\<lambda>q. \<not> enemy_far (enemy_land_loop (enemy_move e) ps) q \<and>
                    enemy_wall_hit (enemy_land_loop (enemy_move e) ps) q) ps = Some p"
  shows "e_x (fst (Enemy_update e ps)) = p_x p + p_width p \<and>
         e_vel_x (fst (Enemy_update e ps)) = - e_vel_x e"
proof -
  let ?e2 = "enemy_land_loop (enemy_move e) ps"
  have v: "e_vel_x ?e2 = e_vel_x e"
    by (simp add: enemy_land_loop_keeps enemy_move_keeps)
  from assms(3) have w: "enemy_wall_loop ?e2 ps = enemy_bounce ?e2 p"
    by (simp add: enemy_wall_loop_find)
  from assms(1) have "fst (Enemy_update e ps) = enemy_animate (enemy_wall_loop ?e2 ps)"
    by (simp add: Enemy_update_def Let_def)
  with w enemy_bounce_left[of ?e2 p] v assms(2) show ?thesis
    by (simp add: enemy_animate_keeps)
qed

theorem C9_left_moving_enemy_bounces_to_right_edge_witness:
  "alive (Enemy 316 104) \<and> e_vel_x (Enemy 316 104) < 0 \<and>
   find (\<lambda>q. \<not> enemy_far (enemy_land_loop (enemy_move (Enemy 316 104)) level_platforms) q \<and>
              enemy_wall_hit (enemy_land_loop (enemy_move (Enemy 316 104)) level_platforms) q)
     level_platforms = Some (Platform 300 70 16 16 Question) \<and>
   e_x (fst (Enemy_update (Enemy 316 104) level_platforms)) = 316 \<and>
   e_vel_x (fst (Enemy_update (Enemy 316 104) level_platforms)) = 1"
proof -
  have a: "alive (Enemy 316 104)" and b: "e_vel_x (Enemy 316 104) < 0"
    by (simp_all add: Enemy_def)
  have c: "find (\<lambda>q. \<not> enemy_far (enemy_land_loop (enemy_move (Enemy 316 104)) level_platforms) q \<and>
              enemy_wall_hit (enemy_land_loop (enemy_move (Enemy 316 104)) level_platforms) q)
     level_platforms = Some (Platform 300 70 16 16 Question)"
    unfolding C9_eval_land by (rule C9_eval_find)
  from C9_left_moving_enemy_bounces_to_right_edge[OF a b c] a b c show ?thesis
    by (simp add: Enemy_def Platform_def)
qed


subsection \<open>Removal of enemies\<close>

lemma Enemy_update_flag:
  "snd (Enemy_update e ps) = (alive e \<and> e_y (fst (Enemy_update e ps)) > DISPLAY_HEIGHT + 50)"
  by (simp add: Enemy_update_def Let_def)

lemma enemy_interact_enemy: "stomp (snd (enemy_interact g e)) = stomp e"
  by (simp add: enemy_interact_def Let_def stomp_def)

lemma enemy_interact_stomps:
  assumes "alive e" and "invincible (mario g) = 0"
    and "check_collision (m_x (mario g)) (m_y (mario g)) (m_width (mario g))
           (m_height (mario g)) (e_x e) (e_y e) (e_width e) (e_height e)"
    and "m_vel_y (mario g) > 0" and "m_y (mario g) < e_y e"
  shows "snd (enemy_interact g e) = stomp e"
  using assms by (simp add: enemy_interact_def Let_def)

lemma enemies_loop_list:
  "map stomp (snd (enemies_loop g es)) =
   map stomp (map fst (filter (\<lambda>r. \<not> snd r)
                         (map (\<lambda>e. Enemy_update e (platforms (level g))) es)))"
proof (induction es arbitrary: g)
  case Nil
  show ?case by simp
next
  case (Cons e es)
  obtain e1 r where u: "Enemy_update e (platforms (level g)) = (e1, r)"
    by (cases "Enemy_update e (platforms (level g))")
  obtain g1 e2 where i: "enemy_interact g e1 = (g1, e2)"
    by (cases "enemy_interact g e1")
  obtain g2 es2 where l: "enemies_loop g1 es = (g2, es2)"
    by (cases "enemies_loop g1 es")
  show ?case
  proof (cases r)
    case True
    with u Cons.IH[of g] show ?thesis by simp
  next
    case False
    from enemy_interact_keeps(1)[of g e1] i have lv: "level g1 = level g" by simp
    from enemy_interact_enemy[of g e1] i have st: "stomp e2 = stomp e1" by simp
    from False u i l lv st Cons.IH[of g1] show ?thesis by simp
  qed
qed

text \<open>
  Claim C4 as stated fails in its second half. A player falling onto an enemy (one frame
  of the session, on a level of one ground block and one enemy) stomps it: the score
  rises by 100, and the enemy is still in \<open>level.enemies\<close> after the frame, marked
  \<open>alive = False\<close>; from then on its \<open>update\<close> returns \<open>False\<close>, so it is never removed.
\<close>

theorem C4_counterexample:
  "score (MarioGame_update
     \<lparr>level = \<lparr>platforms = [Platform 144 120 16 16 Brick], enemies = [Enemy 150 105], coins = []\<rparr>,
      mario = (Mario 150 92)\<lparr>m_vel_y := 3\<rparr>, camera = Camera,
      imu_control = IMUController 0 True, score = 0, g_coins = 0, lives = 3,
      game_over = False, level_complete = False, victory_timer = 0\<rparr>
     \<lparr>btn_poll = True, accel_x = 0, btn_update = True, touch_value = False\<rparr>) = 100 \<and>
   enemies (level (MarioGame_update
     \<lparr>level = \<lparr>platforms = [Platform 144 120 16 16 Brick], enemies = [Enemy 150 105], coins = []\<rparr>,
      mario = (Mario 150 92)\<lparr>m_vel_y := 3\<rparr>, camera = Camera,
      imu_control = IMUController 0 True, score = 0, g_coins = 0, lives = 3,
      game_over = False, level_complete = False, victory_timer = 0\<rparr>
     \<lparr>btn_poll = True, accel_x = 0, btn_update = True, touch_value = False\<rparr>))
   = [(Enemy 149 104)\<lparr>alive := False, e_on_ground := True, frame_counter := 1\<rparr>] \<and>
   Enemy_update ((Enemy 149 104)\<lparr>alive := False, e_on_ground := True, frame_counter := 1\<rparr>)
     [Platform 144 120 16 16 Brick]
   = ((Enemy 149 104)\<lparr>alive := False, e_on_ground := True, frame_counter := 1\<rparr>, False)"
  by code_simp

text \<open>
  Claim C4, amended. \<open>Enemy.update\<close> returns true exactly when the enemy is alive and its
  y after the update exceeds \<open>DISPLAY_HEIGHT + 50\<close>. The session's enemy loop removes from
  \<open>level.enemies\<close> exactly the enemies whose \<open>update\<close> returned true: the list it leaves
  is, in order and up to the \<open>alive\<close> flags, the updated enemies whose \<open>update\<close> returned
  false. A stomped enemy is not removed: it stays in the list with \<open>alive = False\<close>.
\<close>

theorem C4_removal_only_by_falling:
  "snd (Enemy_update e ps) = (alive e \<and> e_y (fst (Enemy_update e ps)) > DISPLAY_HEIGHT + 50) \<and>
   map stomp (enemies (level (game_enemies g))) =
     map stomp (map fst (filter (\<lambda>r. \<not> snd r)
                  (map (\<lambda>e. Enemy_update e (platforms (level g))) (enemies (level g))))) \<and>
   (\<not> snd (Enemy_update en (platforms (level g))) \<and>
    alive (fst (Enemy_update en (platforms (level g)))) \<and> invincible (mario g) = 0 \<and>
    check_collision (m_x (mario g)) (m_y (mario g)) (m_width (mario g)) (m_height (mario g))
      (e_x (fst (Enemy_update en (platforms (level g)))))
      (e_y (fst (Enemy_update en (platforms (level g)))))
      (e_width (fst (Enemy_update en (platforms (level g)))))
      (e_height (fst (Enemy_update en (platforms (level g))))) \<and>
    m_vel_y (mario g) > 0 \<and> m_y (mario g) < e_y (fst (Enemy_update en (platforms (level g)))) \<longrightarrow>
      snd (enemies_loop g (en # es)) =
        stomp (fst (Enemy_update en (platforms (level g))))
        # snd (enemies_loop (fst (enemy_interact g (fst (Enemy_update en (platforms (level g)))))) es) \<and>
      \<not> alive (stomp (fst (Enemy_update en (platforms (level g))))))"
proof -
  have a: "map stomp (enemies (level (game_enemies g))) =
     map stomp (map fst (filter (\<lambda>r. \<not> snd r)
                  (map (\<lambda>e. Enemy_update e (platforms (level g))) (enemies (level g)))))"
    using enemies_loop_list[of g "enemies (level g)"]
    by (cases "enemies_loop g (enemies (level g))") (simp add: game_enemies_def)
  have b: "snd (enemies_loop g (en # es)) =
        stomp (fst (Enemy_update en (platforms (level g))))
        # snd (enemies_loop (fst (enemy_interact g (fst (Enemy_update en (platforms (level g)))))) es)"
    if keep: "\<not> snd (Enemy_update en (platforms (level g)))"
      and st: "snd (enemy_interact g (fst (Enemy_update en (platforms (level g)))))
                 = stomp (fst (Enemy_update en (platforms (level g))))"
  proof -
    obtain e1 r where u: "Enemy_update en (platforms (level g)) = (e1, r)"
      by (cases "Enemy_update en (platforms (level g))")
    obtain g1 e2 where i: "enemy_interact g e1 = (g1, e2)"
      by (cases "enemy_interact g e1")
    obtain g2 es2 where l: "enemies_loop g1 es = (g2, es2)"
      by (cases "enemies_loop g1 es")
    from keep st u i l show ?thesis by simp
  qed
  have c: "\<not> alive (stomp x)" for x by (simp add: stomp_def)
  from a b c enemy_interact_stomps[of "fst (Enemy_update en (platforms (level g)))" g]
  show ?thesis by (simp add: Enemy_update_flag)
qed

theorem C4_removal_only_by_falling_witness:
  "\<not> snd (Enemy_update (Enemy 150 105) [Platform 144 120 16 16 Brick]) \<and>
   fst (Enemy_update (Enemy 150 105) [Platform 144 120 16 16 Brick])
     = (Enemy 149 104)\<lparr>e_on_ground := True, frame_counter := 1\<rparr> \<and>
   check_collision 150 (956 / 10) 16 16 149 104 16 16 \<and>
   snd (enemies_loop
     \<lparr>level = \<lparr>platforms = [Platform 144 120 16 16 Brick], enemies = [Enemy 150 105], coins = []\<rparr>,
      mario = (Mario 150 (956 / 10))\<lparr>m_vel_y := 36 / 10\<rparr>, camera = Camera,
      imu_control = IMUController 0 True, score = 0, g_coins = 0, lives = 3,
      game_over = False, level_complete = False, victory_timer = 0\<rparr> [Enemy 150 105])
   = [stomp ((Enemy 149 104)\<lparr>e_on_ground := True, frame_counter := 1\<rparr>)] \<and>
   \<not> alive (stomp ((Enemy 149 104)\<lparr>e_on_ground := True, frame_counter := 1\<rparr>))"
proof -
  let ?ps = "[Platform 144 120 16 16 Brick]"
  let ?g = "\<lparr>level = \<lparr>platforms = ?ps, enemies = [Enemy 150 105], coins = []\<rparr>,
      mario = (Mario 150 (956 / 10))\<lparr>m_vel_y := 36 / 10\<rparr>, camera = Camera,
      imu_control = IMUController 0 True, score = 0, g_coins = 0, lives = 3,
      game_over = False, level_complete = False, victory_timer = 0\<rparr>"
  let ?e = "(Enemy 149 104)\<lparr>e_on_ground := True, frame_counter := 1\<rparr>"
  have u: "Enemy_update (Enemy 150 105) (platforms (level ?g)) = (?e, False)"
    by code_simp
  have k: "check_collision 150 (956 / 10) 16 16 149 104 16 16"
    by (simp add: check_collision_def)
  have h: "\<not> snd (Enemy_update (Enemy 150 105) (platforms (level ?g))) \<and>
    alive (fst (Enemy_update (Enemy 150 105) (platforms (level ?g)))) \<and>
    invincible (mario ?g) = 0 \<and>
    check_collision (m_x (mario ?g)) (m_y (mario ?g)) (m_width (mario ?g)) (m_height (mario ?g))
      (e_x (fst (Enemy_update (Enemy 150 105) (platforms (level ?g)))))
      (e_y (fst (Enemy_update (Enemy 150 105) (platforms (level ?g)))))
      (e_width (fst (Enemy_update (Enemy 150 105) (platforms (level ?g)))))
      (e_height (fst (Enemy_update (Enemy 150 105) (platforms (level ?g))))) \<and>
    m_vel_y (mario ?g) > 0 \<and>
    m_y (mario ?g) < e_y (fst (Enemy_update (Enemy 150 105) (platforms (level ?g))))"
    unfolding u using k
    by (simp add: Mario_def Enemy_def MARIO_WIDTH_def MARIO_HEIGHT_def ENEMY_WIDTH_def
        ENEMY_HEIGHT_def)
  from C4_removal_only_by_falling[where g = ?g and en = "Enemy 150 105" and es = "[]"] h
  have r: "snd (enemies_loop ?g [Enemy 150 105]) =
        stomp (fst (Enemy_update (Enemy 150 105) (platforms (level ?g))))
        # snd (enemies_loop (fst (enemy_interact ?g
              (fst (Enemy_update (Enemy 150 105) (platforms (level ?g)))))) [])"
    and d: "\<not> alive (stomp (fst (Enemy_update (Enemy 150 105) (platforms (level ?g)))))"
    by blast+
  have u': "Enemy_update (Enemy 150 105) ?ps = (?e, False)"
    using u by simp
  from r d k show ?thesis
    unfolding u u' by simp
qed

subsection \<open>The jump buffer\<close>

lemma imu_tilt_button_fields:
  "prev_jump (imu_tilt s a) = prev_jump s" "jump_buffer (imu_tilt s a) = jump_buffer s"
  "jump_buffer_frames (imu_tilt s a) = jump_buffer_frames s"
  by (simp_all add: imu_tilt_def Let_def)

lemma imu_touch_button_fields:
  "prev_jump (imu_touch s t) = prev_jump s" "jump_buffer (imu_touch s t) = jump_buffer s"
  "jump_buffer_frames (imu_touch s t) = jump_buffer_frames s" "jump (imu_touch s t) = jump s"
  by (simp_all add: imu_touch_def)

lemma poll_no_edge:
  "\<not> (\<not> v \<and> \<not> prev_jump s) \<Longrightarrow>
   jump_buffer (poll_button_only s v) = jump_buffer s \<and>
   jump_buffer_frames (poll_button_only s v) = jump_buffer_frames s \<and>
   prev_jump (poll_button_only s v) = (\<not> v)"
  by (auto simp add: poll_button_only_def Let_def)

lemma poll_edge:
  "\<not> v \<Longrightarrow> \<not> prev_jump s \<Longrightarrow>
   jump_buffer (poll_button_only s v) \<and> jump_buffer_frames (poll_button_only s v) = 3 \<and>
   prev_jump (poll_button_only s v)"
  by (simp add: poll_button_only_def Let_def)

lemma update_no_edge_idle:
  "\<not> (\<not> v \<and> \<not> prev_jump s) \<Longrightarrow> \<not> jump_buffer s \<Longrightarrow>
   \<not> jump (IMUController_update s a v t) \<and> \<not> jump_buffer (IMUController_update s a v t) \<and>
   prev_jump (IMUController_update s a v t) = (\<not> v)"
  by (simp add: IMUController_update_def imu_touch_button_fields imu_button_def Let_def
        imu_tilt_button_fields)

lemma update_no_edge_last:
  "\<not> (\<not> v \<and> \<not> prev_jump s) \<Longrightarrow> jump_buffer s \<Longrightarrow> jump_buffer_frames s \<le> 1 \<Longrightarrow>
   \<not> jump (IMUController_update s a v t) \<and> \<not> jump_buffer (IMUController_update s a v t) \<and>
   prev_jump (IMUController_update s a v t) = (\<not> v)"
  by (simp add: IMUController_update_def imu_touch_button_fields imu_button_def Let_def
        imu_tilt_button_fields)

lemma update_no_edge_buffered:
  "\<not> (\<not> v \<and> \<not> prev_jump s) \<Longrightarrow> jump_buffer s \<Longrightarrow> jump_buffer_frames s > 1 \<Longrightarrow>
   jump (IMUController_update s a v t) \<and> jump_buffer (IMUController_update s a v t) \<and>
   jump_buffer_frames (IMUController_update s a v t) = jump_buffer_frames s - 1 \<and>
   prev_jump (IMUController_update s a v t) = (\<not> v)"
  by (auto simp add: IMUController_update_def imu_touch_button_fields imu_button_def Let_def
        imu_tilt_button_fields)

lemma update_edge:
  "\<not> v \<Longrightarrow> \<not> prev_jump s \<Longrightarrow>
   jump (IMUController_update s a v t) \<and> jump_buffer (IMUController_update s a v t) \<and>
   jump_buffer_frames (IMUController_update s a v t) = 2 \<and>
   prev_jump (IMUController_update s a v t)"
  by (simp add: IMUController_update_def imu_touch_button_fields imu_button_def Let_def
        imu_tilt_button_fields)

lemma count_updates_simps [simp]:
  "count_updates [] = 0" "count_updates (Poll v # cs) = count_updates cs"
  "count_updates (Update a v t # cs) = Suc (count_updates cs)"
  by (simp_all add: count_updates_def)

lemma reads_idle:
  "\<not> jump_buffer s \<Longrightarrow> press_edges (prev_jump s) cs = 0 \<Longrightarrow>
   jump_reads s cs = replicate (count_updates cs) False"
proof (induction cs arbitrary: s)
  case Nil
  show ?case by simp
next
  case (Cons c cs)
  from Cons.prems(2) have ne: "\<not> (\<not> imu_call_level c \<and> \<not> prev_jump s)"
    and rest: "press_edges (\<not> imu_call_level c) cs = 0"
    by (simp_all split: if_splits)
  show ?case
  proof (cases c)
    case (Poll v)
    with ne poll_no_edge[of v s] Cons.prems(1) rest Cons.IH[of "poll_button_only s v"]
    show ?thesis by simp
  next
    case (Update a v t)
    with ne update_no_edge_idle[of v s a t] Cons.prems(1) rest
      Cons.IH[of "IMUController_update s a v t"]
    show ?thesis by (simp add: Let_def)
  qed
qed

lemma reads_one:
  "jump_buffer s \<Longrightarrow> jump_buffer_frames s = 1 \<Longrightarrow> press_edges (prev_jump s) cs = 0 \<Longrightarrow>
   jump_reads s cs = replicate (count_updates cs) False"
proof (induction cs arbitrary: s)
  case Nil
  show ?case by simp
next
  case (Cons c cs)
  from Cons.prems(3) have ne: "\<not> (\<not> imu_call_level c \<and> \<not> prev_jump s)"
    and rest: "press_edges (\<not> imu_call_level c) cs = 0"
    by (simp_all split: if_splits)
  show ?case
  proof (cases c)
    case (Poll v)
    with ne poll_no_edge[of v s] Cons.prems(1,2) rest Cons.IH[of "poll_button_only s v"]
    show ?thesis by simp
  next
    case (Update a v t)
    with ne update_no_edge_last[of v s a t] Cons.prems(1,2) rest
      reads_idle[of "IMUController_update s a v t" cs]
    show ?thesis by (simp add: Let_def)
  qed
qed

lemma reads_two:
  "jump_buffer s \<Longrightarrow> jump_buffer_frames s = 2 \<Longrightarrow> press_edges (prev_jump s) cs = 0 \<Longrightarrow>
   jump_reads s cs = take (count_updates cs) [True] @ replicate (count_updates cs - 1) False"
proof (induction cs arbitrary: s)
  case Nil
  show ?case by simp
next
  case (Cons c cs)
  from Cons.prems(3) have ne: "\<not> (\<not> imu_call_level c \<and> \<not> prev_jump s)"
    and rest: "press_edges (\<not> imu_call_level c) cs = 0"
    by (simp_all split: if_splits)
  show ?case
  proof (cases c)
    case (Poll v)
    with ne poll_no_edge[of v s] Cons.prems(1,2) rest Cons.IH[of "poll_button_only s v"]
    show ?thesis by simp
  next
    case (Update a v t)
    with ne update_no_edge_buffered[of v s a t] Cons.prems(1,2) rest
      reads_one[of "IMUController_update s a v t" cs]
    show ?thesis by (simp add: Let_def)
  qed
qed

lemma reads_three:
  "jump_buffer s \<Longrightarrow> jump_buffer_frames s = 3 \<Longrightarrow> press_edges (prev_jump s) cs = 0 \<Longrightarrow>
   jump_reads s cs =
     take (count_updates cs) [True, True] @ replicate (count_updates cs - 2) False"
proof (induction cs arbitrary: s)
  case Nil
  show ?case by simp
next
  case (Cons c cs)
  from Cons.prems(3) have ne: "\<not> (\<not> imu_call_level c \<and> \<not> prev_jump s)"
    and rest: "press_edges (\<not> imu_call_level c) cs = 0"
    by (simp_all split: if_splits)
  show ?case
  proof (cases c)
    case (Poll v)
    with ne poll_no_edge[of v s] Cons.prems(1,2) rest Cons.IH[of "poll_button_only s v"]
    show ?thesis by simp
  next
    case (Update a v t)
    with ne update_no_edge_buffered[of v s a t] Cons.prems(1,2) rest
      reads_two[of "IMUController_update s a v t" cs]
    show ?thesis by (simp add: Let_def)
  qed
qed

text \<open>
  Claim C2 as stated fails. Four frames of the session from the controller as constructed,
  each frame two \<open>poll_button_only\<close> calls and one \<open>update\<close>; the button is down during the
  second frame only, so the calls contain one press edge. The flag \<open>jump\<close> reads true after
  the \<open>update\<close> of the second frame and again after that of the third: twice for one
  press. Nothing in the code clears the buffer when the flag is read.
\<close>

theorem C2_counterexample:
  "press_edges (prev_jump (IMUController 0 True))
     [Poll True, Poll True, Update 0 True False,
      Poll False, Poll False, Update 0 False False,
      Poll True, Poll True, Update 0 True False,
      Poll True, Poll True, Update 0 True False] = 1 \<and>
   jump_reads (IMUController 0 True)
     [Poll True, Poll True, Update 0 True False,
      Poll False, Poll False, Update 0 False False,
      Poll True, Poll True, Update 0 True False,
      Poll True, Poll True, Update 0 True False] = [False, True, True, False] \<and>
   length (filter (\<lambda>b. b) (jump_reads (IMUController 0 True)
     [Poll True, Poll True, Update 0 True False,
      Poll False, Poll False, Update 0 False False,
      Poll True, Poll True, Update 0 True False,
      Poll True, Poll True, Update 0 True False])) \<noteq> 1"
  by code_simp

text \<open>
  Claim C2, amended. For every sequence of controller calls that begins with a press edge
  (caught by \<open>poll_button_only\<close> or by \<open>update\<close>) and has no further edge: \<open>jump\<close> reads true
  after each of the first two \<open>update\<close> calls of the sequence and false after every later
  one. So a press caught by a poll is still reported by the following \<open>update\<close>, and one
  press is reported on two consecutive updates, not once; the next true read needs a
  fresh edge.
\<close>

theorem C2_jump_true_for_two_updates:
  assumes edge: "\<not> imu_call_level c" "\<not> prev_jump s"
    and quiet: "press_edges True cs = 0"
  shows "jump_reads s (c # cs) =
           take (count_updates (c # cs)) [True, True]
           @ replicate (count_updates (c # cs) - 2) False"
proof (cases c)
  case (Poll v)
  with edge poll_edge[of v s] quiet reads_three[of "poll_button_only s v" cs]
  show ?thesis by simp
next
  case (Update a v t)
  with edge update_edge[of v s a t] quiet reads_two[of "IMUController_update s a v t" cs]
  show ?thesis by (simp add: Let_def)
qed


theorem C2_jump_true_for_two_updates_witness:
  "\<not> imu_call_level (Poll False) \<and>
   \<not> prev_jump ((IMUController 0 True)\<lparr>prev_jump := False\<rparr>) \<and>
   press_edges True [Poll False, Update 0 False False, Poll True, Poll True,
      Update 0 True False, Poll True, Poll True, Update 0 True False] = 0 \<and>
   jump_reads ((IMUController 0 True)\<lparr>prev_jump := False\<rparr>)
     (Poll False # [Poll False, Update 0 False False, Poll True, Poll True,
      Update 0 True False, Poll True, Poll True, Update 0 True False])
     = [True, True, False]"
proof -
  have a: "\<not> imu_call_level (Poll False)" by simp
  have b: "\<not> prev_jump ((IMUController 0 True)\<lparr>prev_jump := False\<rparr>)" by simp
  have c: "press_edges True [Poll False, Update 0 False False, Poll True, Poll True,
      Update 0 True False, Poll True, Poll True, Update 0 True False] = 0"
    by simp
  from C2_jump_true_for_two_updates[OF a b c] a b c show ?thesis
    by simp
qed

subsection \<open>Coins\<close>

lemma coin_step_collected: "collected c \<Longrightarrow> coin_step g c = (g, c)"
  by (simp add: coin_step_def Let_def)

lemma coin_step_coin:
  "c_x (snd (coin_step g c)) = c_x c \<and> c_y (snd (coin_step g c)) = c_y c \<and>
   (collected c \<longrightarrow> collected (snd (coin_step g c)))"
  by (simp add: coin_step_def Let_def)

lemma coins_loop_all_collected:
  "\<forall>c\<in>set cs. collected c \<Longrightarrow> coins_loop g cs = (g, cs)"
  by (induction cs) (simp_all add: coin_step_collected)

lemma coins_loop_monotone:
  "list_all2 (\<lambda>c c'. c_x c' = c_x c \<and> c_y c' = c_y c \<and> (collected c \<longrightarrow> collected c'))
     cs (snd (coins_loop g cs))"
proof (induction cs arbitrary: g)
  case Nil
  show ?case by simp
next
  case (Cons c cs)
  obtain g1 c1 where s: "coin_step g c = (g1, c1)" by (cases "coin_step g c")
  obtain g2 cs2 where l: "coins_loop g1 cs = (g2, cs2)" by (cases "coins_loop g1 cs")
  from coin_step_coin[of g c] s Cons.IH[of g1] l show ?case by simp
qed

lemma game_enemies_coins: "coins (level (game_enemies g)) = coins (level g)"
proof -
  obtain g1 es where l: "enemies_loop g (enemies (level g)) = (g1, es)"
    by (cases "enemies_loop g (enemies (level g))")
  with enemies_loop_keeps[of g "enemies (level g)"] show ?thesis
    by (simp add: game_enemies_def)
qed

lemma game_coins_coins:
  "coins (level (game_coins g)) = snd (coins_loop g (coins (level g)))"
  by (cases "coins_loop g (coins (level g))") (simp add: game_coins_def)

lemma simulate_coins:
  "coins (level (simulate g i)) =
     snd (coins_loop (game_enemies (game_camera (game_mario (game_controls g i))))
            (coins (level g)))"
  by (simp add: simulate_def game_coins_coins game_enemies_coins game_camera_def
        game_mario_def game_controls_def Let_def)

lemma frame_tail_coins:
  "coins (level (fall_death (level_check g))) = coins (level g)"
  by (simp add: fall_death_def level_check_def Let_def)

lemma list_all2_coins_refl:
  "list_all2 (\<lambda>c c'. c_x c' = c_x c \<and> c_y c' = c_y c \<and> (collected c \<longrightarrow> collected c')) cs cs"
  by (simp add: list_all2_same)

text \<open>
  Claim C5. In a frame of the session that does not rebuild the level (every frame but
  the one in which the victory countdown reaches 0 and calls \<open>reset_level\<close>), the coins
  keep their number, order and positions, and a coin that was collected is still
  collected: the flag only goes from false to true. For a coin that is already collected
  the coin step changes nothing, whether the player overlaps it or not: score and coin
  count stay as they are; and a coin loop over collected coins only is the identity.
\<close>

theorem C5_coin_flag_monotone_and_idempotent:
  "(collected c \<longrightarrow> coin_step g c = (g, c)) \<and>
   ((\<forall>c\<in>set cs. collected c) \<longrightarrow> coins_loop g cs = (g, cs)) \<and>
   (\<not> (\<not> game_over g \<and> level_complete g \<and> victory_timer g = 1) \<longrightarrow>
      list_all2 (\<lambda>c c'. c_x c' = c_x c \<and> c_y c' = c_y c \<and> (collected c \<longrightarrow> collected c'))
        (coins (level g)) (coins (level (MarioGame_update g i))))"
proof -
  have frame: "list_all2 (\<lambda>c c'. c_x c' = c_x c \<and> c_y c' = c_y c \<and> (collected c \<longrightarrow> collected c'))
        (coins (level g)) (coins (level (MarioGame_update g i)))"
    if nr: "\<not> (\<not> game_over g \<and> level_complete g \<and> victory_timer g = 1)"
  proof (cases "game_over g")
    case True
    then show ?thesis by (simp add: MarioGame_update_def list_all2_coins_refl)
  next
    case False
    note go = this
    show ?thesis
    proof (cases "level_complete g \<and> victory_timer g > 0")
      case True
      with nr go have "victory_timer g - 1 \<noteq> 0" by simp
      with True go show ?thesis
        by (simp add: MarioGame_update_def victory_countdown_def Let_def list_all2_coins_refl)
    next
      case False
      with go have "MarioGame_update g i = fall_death (level_check (simulate g i))"
        by (auto simp add: MarioGame_update_def)
      then show ?thesis
        by (simp add: frame_tail_coins simulate_coins coins_loop_monotone)
    qed
  qed
  from frame show ?thesis
    by (simp add: coin_step_collected coins_loop_all_collected)
qed

theorem C5_coin_flag_monotone_and_idempotent_witness:
  "collected ((Coin 225 50)\<lparr>collected := True\<rparr>) \<and>
   check_collision (m_x (mario ((MarioGame (IMUController 0 True))\<lparr>mario := Mario 225 50\<rparr>)))
     (m_y (mario ((MarioGame (IMUController 0 True))\<lparr>mario := Mario 225 50\<rparr>))) 16 16
     (c_x ((Coin 225 50)\<lparr>collected := True\<rparr>)) (c_y ((Coin 225 50)\<lparr>collected := True\<rparr>)) 8 14 \<and>
   coin_step ((MarioGame (IMUController 0 True))\<lparr>mario := Mario 225 50\<rparr>)
     ((Coin 225 50)\<lparr>collected := True\<rparr>)
     = ((MarioGame (IMUController 0 True))\<lparr>mario := Mario 225 50\<rparr>,
        (Coin 225 50)\<lparr>collected := True\<rparr>) \<and>
   list_all collected [(Coin 225 50)\<lparr>collected := True\<rparr>] \<and>
   coins_loop ((MarioGame (IMUController 0 True))\<lparr>mario := Mario 225 50\<rparr>)
     [(Coin 225 50)\<lparr>collected := True\<rparr>]
     = ((MarioGame (IMUController 0 True))\<lparr>mario := Mario 225 50\<rparr>,
        [(Coin 225 50)\<lparr>collected := True\<rparr>]) \<and>
   \<not> (\<not> game_over ((MarioGame (IMUController 0 True))\<lparr>mario := Mario 225 50\<rparr>) \<and>
      level_complete ((MarioGame (IMUController 0 True))\<lparr>mario := Mario 225 50\<rparr>) \<and>
      victory_timer ((MarioGame (IMUController 0 True))\<lparr>mario := Mario 225 50\<rparr>) = 1) \<and>
   list_all2 (\<lambda>c c'. c_x c' = c_x c \<and> c_y c' = c_y c \<and> (collected c \<longrightarrow> collected c'))
     (coins (level ((MarioGame (IMUController 0 True))\<lparr>mario := Mario 225 50\<rparr>)))
     (coins (level (MarioGame_update ((MarioGame (IMUController 0 True))\<lparr>mario := Mario 225 50\<rparr>)
        \<lparr>btn_poll = True, accel_x = 0, btn_update = True, touch_value = False\<rparr>)))"
  using C5_coin_flag_monotone_and_idempotent[
      where c = "(Coin 225 50)\<lparr>collected := True\<rparr>"
        and g = "(MarioGame (IMUController 0 True))\<lparr>mario := Mario 225 50\<rparr>"
        and cs = "[(Coin 225 50)\<lparr>collected := True\<rparr>]"
        and i = "\<lparr>btn_poll = True, accel_x = 0, btn_update = True, touch_value = False\<rparr>"]
  by (simp add: Coin_def MarioGame_def Mario_def check_collision_def)

subsection \<open>Level completion and the victory countdown\<close>






subsection \<open>Landing during Mario.update\<close>











lemma poll_run_simps [simp]:
  "poll_run c [] = c" "poll_run c (v # vs) = poll_run (poll_button_only c v) vs"
  "poll_run c (vs @ [v]) = poll_button_only (poll_run c vs) v"
  by (simp_all add: poll_run_def)





subsection \<open>At most one life is lost in a frame\<close>







subsection \<open>Level completion, the victory countdown and the reset\<close>




end
